theory Spec2Isabelle
  imports Complex_Main
begin

section \<open>Numbers\<close>

text \<open>
  The component computes with JavaScript numbers. They are read here as real numbers
  (rounding, overflow, underflow and signed zero are not modelled) together with the
  three values that are not real numbers: the two infinities and NaN. A zero divisor is
  read as \<open>+0\<close>.
\<close>

datatype jsnum = Fin real | PosInf | NegInf | NaN

fun js_neg :: "jsnum \<Rightarrow> jsnum" where
  "js_neg (Fin a) = Fin (- a)"
| "js_neg PosInf = NegInf"
| "js_neg NegInf = PosInf"
| "js_neg NaN = NaN"

fun js_add :: "jsnum \<Rightarrow> jsnum \<Rightarrow> jsnum" where
  "js_add (Fin a) (Fin b) = Fin (a + b)"
| "js_add NaN _ = NaN"
| "js_add _ NaN = NaN"
| "js_add PosInf NegInf = NaN"
| "js_add NegInf PosInf = NaN"
| "js_add PosInf _ = PosInf"
| "js_add _ PosInf = PosInf"
| "js_add NegInf _ = NegInf"
| "js_add _ NegInf = NegInf"

definition js_sub :: "jsnum \<Rightarrow> jsnum \<Rightarrow> jsnum" where
  "js_sub a b = js_add a (js_neg b)"

fun js_mul :: "jsnum \<Rightarrow> jsnum \<Rightarrow> jsnum" where
  "js_mul (Fin a) (Fin b) = Fin (a * b)"
| "js_mul NaN _ = NaN"
| "js_mul _ NaN = NaN"
| "js_mul PosInf (Fin b) = (if b = 0 then NaN else if 0 < b then PosInf else NegInf)"
| "js_mul NegInf (Fin b) = (if b = 0 then NaN else if 0 < b then NegInf else PosInf)"
| "js_mul (Fin a) PosInf = (if a = 0 then NaN else if 0 < a then PosInf else NegInf)"
| "js_mul (Fin a) NegInf = (if a = 0 then NaN else if 0 < a then NegInf else PosInf)"
| "js_mul PosInf PosInf = PosInf"
| "js_mul NegInf NegInf = PosInf"
| "js_mul PosInf NegInf = NegInf"
| "js_mul NegInf PosInf = NegInf"

fun js_div :: "jsnum \<Rightarrow> jsnum \<Rightarrow> jsnum" where
  "js_div (Fin a) (Fin b) =
     (if b \<noteq> 0 then Fin (a / b)
      else if a = 0 then NaN else if 0 < a then PosInf else NegInf)"
| "js_div NaN _ = NaN"
| "js_div _ NaN = NaN"
| "js_div (Fin a) PosInf = Fin 0"
| "js_div (Fin a) NegInf = Fin 0"
| "js_div PosInf (Fin b) = (if 0 \<le> b then PosInf else NegInf)"
| "js_div NegInf (Fin b) = (if 0 \<le> b then NegInf else PosInf)"
| "js_div PosInf PosInf = NaN"
| "js_div PosInf NegInf = NaN"
| "js_div NegInf PosInf = NaN"
| "js_div NegInf NegInf = NaN"

text \<open>The comparison \<open>a <= b\<close>: false as soon as one side is NaN.\<close>

fun js_le :: "jsnum \<Rightarrow> jsnum \<Rightarrow> bool" where
  "js_le (Fin a) (Fin b) = (a \<le> b)"
| "js_le NaN _ = False"
| "js_le _ NaN = False"
| "js_le NegInf _ = True"
| "js_le _ PosInf = True"
| "js_le PosInf _ = False"
| "js_le _ NegInf = False"

section \<open>Responsive configuration\<close>

text \<open>
  A CSS length such as \<open>60%\<close> or \<open>80px\<close>: the number \<open>parseFloat\<close> reads from the string
  and the unit that is left when digits and dots are removed. Every length of the component
  is written as a number followed by one of these two units.
\<close>

datatype css_length = Pct jsnum | Px jsnum

fun parseFloat :: "css_length \<Rightarrow> jsnum" where
  "parseFloat (Pct n) = n"
| "parseFloat (Px n) = n"

type_synonym snapPoint = string

record SnapConfig =
  height :: css_length
  contentVisible :: bool
  showHandle :: bool
  showSnapButtons :: bool
  threshold :: real
  maxWidth :: css_length

text \<open>
  \<open>getSnapPointConfig\<close> builds an object with the three keys below; reading any other key
  gives \<open>undefined\<close>, here \<open>None\<close>. The tablet adjustment overwrites two heights. The names
  of the members that every object inherits (\<open>constructor\<close>, \<open>toString\<close> and the like) are
  outside this model: for them the lookup gives an object without a height, not
  \<open>undefined\<close>. Nothing below is stated for such a name: wherever a snap point is looked
  up, it is one of the three keys.
\<close>

definition getSnapPointConfig :: "bool \<Rightarrow> bool \<Rightarrow> snapPoint \<Rightarrow> SnapConfig option" where
  "getSnapPointConfig mobile tablet key =
     (if key = ''closed'' then
        Some \<lparr> height = (if mobile then Px (Fin 60) else Px (Fin 80)),
               contentVisible = False, showHandle = True, showSnapButtons = False,
               threshold = 0.2,
               maxWidth = (if mobile then Pct (Fin 100) else Px (Fin 600)) \<rparr>
      else if key = ''half-open'' then
        Some \<lparr> height = (if tablet then Pct (Fin 55)
                         else if mobile then Pct (Fin 60) else Pct (Fin 50)),
               contentVisible = True, showHandle = True, showSnapButtons = \<not> mobile,
               threshold = 0.5,
               maxWidth = (if mobile then Pct (Fin 100) else Px (Fin 600)) \<rparr>
      else if key = ''fully-open'' then
        Some \<lparr> height = (if tablet then Pct (Fin 92)
                         else if mobile then Pct (Fin 95) else Pct (Fin 90)),
               contentVisible = True, showHandle = True, showSnapButtons = \<not> mobile,
               threshold = 0.8,
               maxWidth = (if mobile then Pct (Fin 100) else Px (Fin 600)) \<rparr>
      else None)"

record SpringParams =
  tension :: real
  friction :: real
  mass :: real

definition getSpringConfig :: "bool \<Rightarrow> SpringParams" where
  "getSpringConfig mobile =
     (if mobile then \<lparr> tension = 0.4, friction = 0.7, mass = 0.8 \<rparr>
      else \<lparr> tension = 0.3, friction = 0.8, mass = 1.0 \<rparr>)"

section \<open>Spring easing\<close>

text \<open>
  The two locals \<open>omega\<close> and \<open>zeta\<close> of \<open>springEase\<close>, as functions of the parameter set.
\<close>

definition omega :: "SpringParams \<Rightarrow> real" where
  "omega cfg = sqrt (tension cfg / mass cfg)"

definition zeta :: "SpringParams \<Rightarrow> real" where
  "zeta cfg = friction cfg / (2 * sqrt (tension cfg * mass cfg))"

text \<open>
  \<open>springEase\<close> on a parameter set with positive tension and mass, where \<open>omega\<close> and
  \<open>zeta\<close> are finite. Each branch divides by its damped frequency. When that frequency
  is zero the quotient is infinite (or NaN) and is then multiplied by \<open>Math.sin(0)\<close>,
  respectively \<open>Math.sinh(0)\<close>, which is zero: the product, and with it the result of
  the function, is NaN.
\<close>

definition springEase :: "SpringParams \<Rightarrow> real \<Rightarrow> jsnum" where
  "springEase cfg t =
     (if zeta cfg < 1 then
        (let omegaD = omega cfg * sqrt (1 - zeta cfg * zeta cfg) in
         if omegaD = 0 then NaN
         else Fin (1 - exp (- zeta cfg * omega cfg * t) *
                (cos (omegaD * t) + (zeta cfg * omega cfg / omegaD) * sin (omegaD * t))))
      else
        (let omegaN = omega cfg * sqrt (zeta cfg * zeta cfg - 1) in
         if omegaN = 0 then NaN
         else Fin (1 - exp (- zeta cfg * omega cfg * t) *
                (cosh (omegaN * t) + (zeta cfg * omega cfg / omegaN) * sinh (omegaN * t)))))"

section \<open>Velocity estimator\<close>

record sample =
  sample_y :: real
  sample_time :: real

text \<open>
  \<open>calculateVelocity\<close> mutates the array held by \<open>velocityRef\<close> and returns a number; the
  model takes the array and returns the number together with the array afterwards.
  \<open>push\<close> appends, \<open>shift\<close> removes the first element.
\<close>

definition calculateVelocity :: "sample list \<Rightarrow> real \<Rightarrow> real \<Rightarrow> real \<times> sample list" where
  "calculateVelocity ref currentY currentTime =
     (let pushed = ref @ [\<lparr> sample_y = currentY, sample_time = currentTime \<rparr>];
          win = (if length pushed > 5 then tl pushed else pushed)
      in (if length win \<ge> 2 then
            (let first = win ! 0;
                 lst = win ! (length win - 1);
                 timeDiff = sample_time lst - sample_time first;
                 distance = sample_y lst - sample_y first
             in if timeDiff > 0 then distance / timeDiff else 0)
          else 0,
          win))"

text \<open>Feeding a whole gesture's samples, one call per pointer move, from an empty array.\<close>

fun observe_all :: "sample list \<Rightarrow> sample list \<Rightarrow> sample list" where
  "observe_all ref [] = ref"
| "observe_all ref (p # ps) =
     observe_all (snd (calculateVelocity ref (sample_y p) (sample_time p))) ps"

section \<open>Component state\<close>

text \<open>
  The closure of one \<open>animate\<close> callback: the constants \<open>startTime\<close> and \<open>duration\<close>, the
  argument \<open>targetSnapPoint\<close>, and the spring parameters of the render in which
  \<open>animateToSnapPoint\<close> ran (the callback calls that render's \<open>springEase\<close>).
\<close>

record frame =
  frame_startTime :: real
  frame_duration :: real
  frame_target :: snapPoint
  frame_spring :: SpringParams

text \<open>
  The props the handlers and effects read, the \<open>useState\<close> cells and the two refs. The prop
  \<open>onClose\<close> has no default: \<open>onCloseGiven\<close> tells whether the caller passed a function.
  \<open>animationRef\<close> holds the callback that is scheduled with \<open>requestAnimationFrame\<close>, if
  one is. Two fields record
  what the component sends out: \<open>closeCalls\<close> counts the calls of \<open>onClose\<close>, and \<open>announced\<close>
  lists the arguments of \<open>announceSnapPointChange\<close> in order.
\<close>

record sheet =
  isOpen :: bool
  onCloseGiven :: bool
  title :: string
  description :: string
  closeOnEscape :: bool
  snapPoints :: "snapPoint list"
  currentSnapPoint :: snapPoint
  isDragging :: bool
  startY :: real
  currentY :: real
  isAnimating :: bool
  animationProgress :: jsnum
  targetHeight :: css_length
  startHeight :: css_length
  dragVelocity :: real
  lastDragTime :: real
  lastDragY :: real
  isMobile :: bool
  isTablet :: bool
  viewportHeight :: real
  viewportWidth :: real
  showControls :: bool
  announcement :: string
  animationRef :: "frame option"
  velocityRef :: "sample list"
  closeCalls :: nat
  announced :: "snapPoint list"

text \<open>
  Reading a property of \<open>undefined\<close> throws a TypeError. The state an uncaught exception
  leaves behind is not modelled.
\<close>

datatype error = TypeError

definition snapPointConfig :: "sheet \<Rightarrow> snapPoint \<Rightarrow> SnapConfig option" where
  "snapPointConfig s = getSnapPointConfig (isMobile s) (isTablet s)"

definition handleResize :: "sheet \<Rightarrow> real \<Rightarrow> real \<Rightarrow> sheet" where
  "handleResize s width hgt =
     s\<lparr> viewportWidth := width, viewportHeight := hgt,
        isMobile := (width < 768),
        isTablet := (width \<ge> 768 \<and> width < 1024) \<rparr>"

text \<open>
  The effect that depends on \<open>isOpen\<close>, \<open>isMobile\<close>, \<open>title\<close> and \<open>description\<close>. What it does
  to the document body is no part of the state here.
\<close>

definition openEffect :: "sheet \<Rightarrow> sheet" where
  "openEffect s =
     (if isOpen s then
        s\<lparr> showControls := (\<not> isMobile s),
           announcement := title s @ '' opened. '' @ description s \<rparr>
      else s\<lparr> showControls := False \<rparr>)"

text \<open>
  A resize or orientation event of the window: \<open>handleResize\<close> runs, the component renders
  again, and the effect above runs again when \<open>isMobile\<close> has changed (the other
  dependencies are props, which stay as they are).
\<close>

definition viewportChanged :: "sheet \<Rightarrow> real \<Rightarrow> real \<Rightarrow> sheet" where
  "viewportChanged s width hgt =
     (let s' = handleResize s width hgt
      in if isMobile s' \<noteq> isMobile s then openEffect s' else s')"

text \<open>The cells that a viewport change can write, all written at once.\<close>

definition view_update ::
    "sheet \<Rightarrow> real \<Rightarrow> real \<Rightarrow> bool \<Rightarrow> bool \<Rightarrow> bool \<Rightarrow> string \<Rightarrow> sheet" where
  "view_update s width hgt mobile tablet controls msg =
     s\<lparr> viewportWidth := width, viewportHeight := hgt, isMobile := mobile,
        isTablet := tablet, showControls := controls, announcement := msg \<rparr>"

section \<open>Snap-point selection\<close>

definition snapPointOrder :: "snapPoint list" where
  "snapPointOrder = [''closed'', ''half-open'', ''fully-open'']"

text \<open>\<open>Array.prototype.indexOf\<close>: the first position of the element, or \<open>-1\<close>.\<close>

primrec indexOf :: "'a list \<Rightarrow> 'a \<Rightarrow> int" where
  "indexOf [] x = - 1"
| "indexOf (a # as) x =
     (if a = x then 0 else (let r = indexOf as x in if r < 0 then - 1 else r + 1))"

text \<open>Reading \<open>arr[i]\<close>: \<open>undefined\<close>, here \<open>None\<close>, outside the array.\<close>

definition at_index :: "'a list \<Rightarrow> int \<Rightarrow> 'a option" where
  "at_index xs i = (if 0 \<le> i \<and> i < int (length xs) then Some (xs ! nat i) else None)"

text \<open>
  The first part of \<open>determineTargetSnapPoint\<close>: the height as a fraction of the viewport.
  The test for \<open>%\<close> comes first. A string with neither unit would leave the initial \<open>0\<close>;
  no \<open>css_length\<close> is such a string.
\<close>

fun heightPercent :: "real \<Rightarrow> css_length \<Rightarrow> jsnum" where
  "heightPercent vh (Pct n) = js_div n (Fin 100)"
| "heightPercent vh (Px n) = js_div n (Fin vh)"

definition velocityThreshold :: "bool \<Rightarrow> real" where
  "velocityThreshold mobile = (if mobile then 0.3 else 0.5)"

definition snapThresholds :: "bool \<Rightarrow> real list" where
  "snapThresholds mobile = (if mobile then [0.1, 0.3, 0.7] else [0.1, 0.35, 0.75])"

text \<open>
  The \<open>for\<close> loop over the thresholds, from index \<open>i\<close>: the index at which it returns, or
  \<open>None\<close> when it runs to the end.
\<close>

fun thresholdLoop :: "jsnum \<Rightarrow> real list \<Rightarrow> nat \<Rightarrow> nat option" where
  "thresholdLoop hp [] i = None"
| "thresholdLoop hp (t # ts) i =
     (if js_le hp (Fin t) then Some i else thresholdLoop hp ts (Suc i))"

definition determineTargetSnapPoint :: "sheet \<Rightarrow> css_length \<Rightarrow> real \<Rightarrow> snapPoint option" where
  "determineTargetSnapPoint s currentHeight velocity =
     (let currentIndex = indexOf snapPointOrder (currentSnapPoint s);
          hp = heightPercent (viewportHeight s) currentHeight
      in if \<bar>velocity\<bar> > velocityThreshold (isMobile s) then
           (if velocity < 0 then
              (if currentIndex < int (length snapPointOrder) - 1
               then at_index snapPointOrder (currentIndex + 1)
               else Some (currentSnapPoint s))
            else
              (if currentIndex > 0 then at_index snapPointOrder (currentIndex - 1)
               else Some ''closed''))
         else
           (case thresholdLoop hp (snapThresholds (isMobile s)) 0 of
              Some i \<Rightarrow> at_index snapPointOrder (int i)
            | None \<Rightarrow> at_index snapPointOrder (int (length snapPointOrder) - 1)))"

section \<open>Transition animator\<close>

definition snapPointLabel :: "snapPoint \<Rightarrow> string" where
  "snapPointLabel sp =
     (if sp = ''closed'' then ''Bottom sheet minimized''
      else if sp = ''half-open'' then ''Bottom sheet half open''
      else if sp = ''fully-open'' then ''Bottom sheet fully open''
      else ''Bottom sheet '' @ sp)"

definition announceSnapPointChange :: "sheet \<Rightarrow> snapPoint \<Rightarrow> sheet" where
  "announceSnapPointChange s sp =
     s\<lparr> announcement := snapPointLabel sp, announced := announced s @ [sp] \<rparr>"

text \<open>
  \<open>animateToSnapPoint\<close>, with the value of \<open>performance.now()\<close> as an argument. Its last
  statement schedules the first call of \<open>animate\<close>.
\<close>

definition animateToSnapPoint :: "sheet \<Rightarrow> real \<Rightarrow> snapPoint \<Rightarrow> error + sheet" where
  "animateToSnapPoint s now targetSnapPoint =
     (if isAnimating s then Inr s
      else case snapPointConfig s (currentSnapPoint s) of
        None \<Rightarrow> Inl TypeError
      | Some currentConfig \<Rightarrow>
         (case snapPointConfig s targetSnapPoint of
            None \<Rightarrow> Inl TypeError
          | Some targetConfig \<Rightarrow>
              Inr (s\<lparr> startHeight := height currentConfig,
                      targetHeight := height targetConfig,
                      isAnimating := True,
                      animationProgress := Fin 0,
                      animationRef := Some \<lparr> frame_startTime = now,
                        frame_duration = (if isMobile s then 500 else 600),
                        frame_target = targetSnapPoint,
                        frame_spring = getSpringConfig (isMobile s) \<rparr> \<rparr>)))"

text \<open>
  One call of the scheduled callback \<open>animate\<close> at time \<open>currentTime\<close>. While
  \<open>progress < 1\<close> the callback schedules itself again; otherwise it commits and nothing
  stays scheduled. With no callback scheduled there is nothing to call.
\<close>

definition animate :: "sheet \<Rightarrow> real \<Rightarrow> sheet" where
  "animate s currentTime =
     (case animationRef s of
        None \<Rightarrow> s
      | Some f \<Rightarrow>
          (let elapsed = currentTime - frame_startTime f;
               progress = min (elapsed / frame_duration f) 1;
               springProgress = springEase (frame_spring f) progress
           in if progress < 1 then s\<lparr> animationProgress := springProgress \<rparr>
              else announceSnapPointChange
                     (s\<lparr> isAnimating := False,
                         currentSnapPoint := frame_target f,
                         animationProgress := Fin 0,
                         dragVelocity := 0,
                         velocityRef := [],
                         animationRef := None \<rparr>)
                     (frame_target f)))"

text \<open>The frames the browser delivers, in order.\<close>

fun run_frames :: "sheet \<Rightarrow> real list \<Rightarrow> sheet" where
  "run_frames s [] = s"
| "run_frames s (t # ts) = run_frames (animate s t) ts"

text \<open>
  \<open>getCurrentHeight\<close>. The interpolated number is written back into a string with the
  unit; with two different units the target height is returned as it is.
\<close>

definition getCurrentHeight :: "sheet \<Rightarrow> error + css_length" where
  "getCurrentHeight s =
     (if \<not> isAnimating s then
        (case snapPointConfig s (currentSnapPoint s) of
           None \<Rightarrow> Inl TypeError
         | Some currentConfig \<Rightarrow> Inr (height currentConfig))
      else
        (let startValue = parseFloat (startHeight s);
             targetValue = parseFloat (targetHeight s);
             interpolatedValue =
               js_add startValue (js_mul (js_sub targetValue startValue) (animationProgress s))
         in case (startHeight s, targetHeight s) of
              (Pct _, Pct _) \<Rightarrow> Inr (Pct interpolatedValue)
            | (Px _, Px _) \<Rightarrow> Inr (Px interpolatedValue)
            | _ \<Rightarrow> Inr (targetHeight s)))"

section \<open>Gesture handlers\<close>

definition handleTouchStart :: "sheet \<Rightarrow> real \<Rightarrow> real \<Rightarrow> sheet" where
  "handleTouchStart s clientY now =
     (if isAnimating s then s
      else s\<lparr> isDragging := True, startY := clientY, currentY := clientY,
              lastDragY := clientY, lastDragTime := now, dragVelocity := 0,
              velocityRef := [] \<rparr>)"


text \<open>
  The call \<open>onClose()\<close>: a TypeError when the prop was not passed, since \<open>undefined\<close> is not
  a function.
\<close>

definition onClose :: "sheet \<Rightarrow> error + sheet" where
  "onClose s =
     (if onCloseGiven s then Inr (s\<lparr> closeCalls := Suc (closeCalls s) \<rparr>)
      else Inl TypeError)"


section \<open>Discrete commands\<close>

datatype key = Escape | ArrowUp | ArrowDown | Home | End | Tab | OtherKey

text \<open>
  \<open>handleKeyDown\<close>. The \<open>Tab\<close> case only moves the focus in the document, which is no part
  of the state here.
\<close>

definition handleKeyDown :: "sheet \<Rightarrow> real \<Rightarrow> key \<Rightarrow> error + sheet" where
  "handleKeyDown s now k =
     (if \<not> isOpen s then Inr s
      else case k of
        Escape \<Rightarrow>
          (if closeOnEscape s then
             (if currentSnapPoint s = ''closed'' then onClose s
              else animateToSnapPoint s now ''closed'')
           else Inr s)
      | ArrowUp \<Rightarrow>
          (let currentIndex = indexOf snapPointOrder (currentSnapPoint s)
           in if currentIndex < int (length snapPointOrder) - 1 then
                (case at_index snapPointOrder (currentIndex + 1) of
                   None \<Rightarrow> (if isAnimating s then Inr s else Inl TypeError)
                 | Some t \<Rightarrow> animateToSnapPoint s now t)
              else Inr s)
      | ArrowDown \<Rightarrow>
          (let currentIndexDown = indexOf snapPointOrder (currentSnapPoint s)
           in if currentIndexDown > 0 then
                (case at_index snapPointOrder (currentIndexDown - 1) of
                   None \<Rightarrow> (if isAnimating s then Inr s else Inl TypeError)
                 | Some t \<Rightarrow> animateToSnapPoint s now t)
              else if currentIndexDown = 0 then onClose s
              else Inr s)
      | Home \<Rightarrow> animateToSnapPoint s now ''fully-open''
      | End \<Rightarrow> animateToSnapPoint s now ''closed''
      | Tab \<Rightarrow> Inr s
      | OtherKey \<Rightarrow> Inr s)"

definition handleSnapPointClick :: "sheet \<Rightarrow> real \<Rightarrow> snapPoint \<Rightarrow> error + sheet" where
  "handleSnapPointClick s now snapPoint =
     (if snapPoint \<noteq> currentSnapPoint s \<and> \<not> isAnimating s
      then animateToSnapPoint s now snapPoint else Inr s)"

definition handleMaximize :: "sheet \<Rightarrow> real \<Rightarrow> error + sheet" where
  "handleMaximize s now =
     (if \<not> isAnimating s then animateToSnapPoint s now ''fully-open'' else Inr s)"

section \<open>Mounting\<close>

text \<open>
  The state after the first render and the effects of mounting: every \<open>useState\<close> cell
  starts at its initial value, \<open>currentSnapPoint\<close> at the prop \<open>defaultSnapPoint\<close>; then
  \<open>handleResize\<close> has run and the effect on \<open>isOpen\<close> and \<open>isMobile\<close> has run with the device
  class found. The arguments are the prop \<open>isOpen\<close>, whether \<open>onClose\<close> was passed, the props
  \<open>snapPoints\<close> and \<open>defaultSnapPoint\<close>, and the window's inner width and height. The other
  props have their defaults.
\<close>

definition mount ::
    "bool \<Rightarrow> bool \<Rightarrow> snapPoint list \<Rightarrow> snapPoint \<Rightarrow> real \<Rightarrow> real \<Rightarrow> sheet" where
  "mount opened closer points defaultSnapPoint width hgt =
     openEffect
       (handleResize
          \<lparr> isOpen = opened, onCloseGiven = closer, title = ''Bottom Sheet'',
            description = ''A bottom sheet component with multiple snap points'',
            closeOnEscape = True, snapPoints = points,
            currentSnapPoint = defaultSnapPoint, isDragging = False, startY = 0,
            currentY = 0, isAnimating = False, animationProgress = Fin 0,
            targetHeight = Pct (Fin 50), startHeight = Pct (Fin 50),
            dragVelocity = 0, lastDragTime = 0, lastDragY = 0,
            isMobile = False, isTablet = False,
            viewportHeight = hgt, viewportWidth = width,
            showControls = False, announcement = [], animationRef = None,
            velocityRef = [], closeCalls = 0, announced = [] \<rparr>
          width hgt)"

section \<open>The selection rule of the specification\<close>

text \<open>
  The rule as the specification words it, for any ordered sequence of snap points: above
  the velocity threshold one step along the sequence in the direction of motion, clamped
  at both ends; otherwise the first snap point whose threshold the fraction does not
  exceed, or the last snap point.
\<close>

definition selectTarget_spec ::
    "snapPoint list \<Rightarrow> snapPoint \<Rightarrow> real \<Rightarrow> real \<Rightarrow> bool \<Rightarrow> snapPoint" where
  "selectTarget_spec order cur fraction vel mobile =
     (let i = length (takeWhile (\<lambda>p. p \<noteq> cur) order);
          n = length order
      in if \<bar>vel\<bar> > (if mobile then 0.3 else 0.5) then
           (if vel < 0 then order ! min (i + 1) (n - 1) else order ! (i - 1))
         else
           (case find (\<lambda>(th, p). fraction \<le> th)
                   (zip (if mobile then [0.1, 0.3, 0.7] else [0.1, 0.35, 0.75]) order) of
              Some (th, p) \<Rightarrow> p
            | None \<Rightarrow> last order))"

section \<open>The closed form of the specification\<close>


section \<open>The displayed extent of the specification\<close>

text \<open>
  The displayed extent as the specification words it for a running transition: the
  interpolation of \<open>getCurrentHeight\<close>, between the extents that the table of the present
  device class gives the current and the target snap point.
\<close>

definition getCurrentHeight_live_spec :: "sheet \<Rightarrow> error + css_length" where
  "getCurrentHeight_live_spec s =
     (case animationRef s of
        None \<Rightarrow> getCurrentHeight s
      | Some f \<Rightarrow>
          (case snapPointConfig s (currentSnapPoint s) of
             None \<Rightarrow> Inl TypeError
           | Some fromConfig \<Rightarrow>
               (case snapPointConfig s (frame_target f) of
                  None \<Rightarrow> Inl TypeError
                | Some toConfig \<Rightarrow>
                    getCurrentHeight
                      (s\<lparr> startHeight := height fromConfig,
                          targetHeight := height toConfig \<rparr>))))"

section \<open>Example states\<close>

text \<open>
  The component as the demo application and the tests mount it: open, with an \<open>onClose\<close>
  callback and the default snap points, in a window of 1024 by 800 pixels, resting at
  the given snap point.
\<close>

definition desktop_sheet :: "snapPoint \<Rightarrow> sheet" where
  "desktop_sheet sp = mount True True [''closed'', ''half-open'', ''fully-open''] sp 1024 800"

section \<open>Facts about the fixed tables\<close>

lemma length_snapPointOrder: "length snapPointOrder = 3"
  by (simp add: snapPointOrder_def)

lemma indexOf_snapPointOrder:
  "indexOf snapPointOrder sp =
     (if sp = ''closed'' then 0 else if sp = ''half-open'' then 1
      else if sp = ''fully-open'' then 2 else - 1)"
  by (simp add: snapPointOrder_def)

lemma at_index_snapPointOrder:
  "at_index snapPointOrder 0 = Some ''closed''"
  "at_index snapPointOrder 1 = Some ''half-open''"
  "at_index snapPointOrder 2 = Some ''fully-open''"
  by (simp_all add: at_index_def snapPointOrder_def)

lemma thresholdLoop3:
  "thresholdLoop hp [a, b, c] 0 =
     (if js_le hp (Fin a) then Some 0 else if js_le hp (Fin b) then Some 1
      else if js_le hp (Fin c) then Some 2 else None)"
  by simp


lemma desktop_sheet_simps:
  "isOpen (desktop_sheet sp)" "closeOnEscape (desktop_sheet sp)"
  "currentSnapPoint (desktop_sheet sp) = sp"
  "\<not> isDragging (desktop_sheet sp)" "\<not> isAnimating (desktop_sheet sp)"
  "\<not> isMobile (desktop_sheet sp)" "\<not> isTablet (desktop_sheet sp)"
  "viewportHeight (desktop_sheet sp) = 800"
  "dragVelocity (desktop_sheet sp) = 0"
  "velocityRef (desktop_sheet sp) = []"
  "announced (desktop_sheet sp) = []"
  "closeCalls (desktop_sheet sp) = 0"
  "animationRef (desktop_sheet sp) = None"
  "onCloseGiven (desktop_sheet sp)"
  by (simp_all add: desktop_sheet_def mount_def handleResize_def openEffect_def)

lemma handleTouchStart_desktop:
  "handleTouchStart (desktop_sheet sp) cy now =
     (desktop_sheet sp)\<lparr> isDragging := True, startY := cy, currentY := cy,
              lastDragY := cy, lastDragTime := now, dragVelocity := 0,
              velocityRef := [] \<rparr>"
  by (simp add: handleTouchStart_def desktop_sheet_simps)

section \<open>Snap-point selection: the rule and its range\<close>

text \<open>
  C1. When the current snap point is one of the sequence and the height is a finite
  fraction of the viewport, \<open>determineTargetSnapPoint\<close> returns what the rule of the
  specification gives on the sequence closed, half-open, fully-open: above the velocity
  threshold of the device (0.3 on mobile, 0.5 otherwise) the neighbour of the current
  snap point in the direction of motion, clamped at both ends; otherwise the first snap
  point whose threshold the fraction does not exceed, or the last one.
\<close>

theorem determineTargetSnapPoint_follows_rule:
  assumes "currentSnapPoint s \<in> set snapPointOrder"
    and "heightPercent (viewportHeight s) h = Fin fr"
  shows "determineTargetSnapPoint s h v =
           Some (selectTarget_spec snapPointOrder (currentSnapPoint s) fr v (isMobile s))"
proof -
  consider "currentSnapPoint s = ''closed''" | "currentSnapPoint s = ''half-open''"
    | "currentSnapPoint s = ''fully-open''"
    using assms(1) by (auto simp: snapPointOrder_def)
  then show ?thesis
  proof cases
    case 1
    then show ?thesis
      by (simp add: determineTargetSnapPoint_def selectTarget_spec_def assms(2)
          indexOf_snapPointOrder at_index_snapPointOrder thresholdLoop3
          velocityThreshold_def snapThresholds_def Let_def)
         (simp add: snapPointOrder_def at_index_def)
  next
    case 2
    then show ?thesis
      by (simp add: determineTargetSnapPoint_def selectTarget_spec_def assms(2)
          indexOf_snapPointOrder at_index_snapPointOrder thresholdLoop3
          velocityThreshold_def snapThresholds_def Let_def)
         (simp add: snapPointOrder_def at_index_def)
  next
    case 3
    then show ?thesis
      by (simp add: determineTargetSnapPoint_def selectTarget_spec_def assms(2)
          indexOf_snapPointOrder at_index_snapPointOrder thresholdLoop3
          velocityThreshold_def snapThresholds_def Let_def)
         (simp add: snapPointOrder_def at_index_def)
  qed
qed

text \<open>
  The two scenarios of the specification: at half-open on a desktop, a fraction of 0.2
  and no velocity select half-open; at closed, a velocity of -0.6 selects half-open.
\<close>

theorem determineTargetSnapPoint_follows_rule_witness:
  "currentSnapPoint (desktop_sheet ''half-open'') \<in> set snapPointOrder
   \<and> heightPercent (viewportHeight (desktop_sheet ''half-open'')) (Pct (Fin 20)) = Fin (1 / 5)
   \<and> determineTargetSnapPoint (desktop_sheet ''half-open'') (Pct (Fin 20)) 0
       = Some ''half-open''"
proof -
  have m: "currentSnapPoint (desktop_sheet ''half-open'') \<in> set snapPointOrder"
    by (simp add: desktop_sheet_simps snapPointOrder_def)
  have f: "heightPercent (viewportHeight (desktop_sheet ''half-open'')) (Pct (Fin 20))
             = Fin (1 / 5)"
    by simp
  show ?thesis
    using m f determineTargetSnapPoint_follows_rule [OF m f, of 0]
    by (simp add: selectTarget_spec_def desktop_sheet_simps snapPointOrder_def)
qed

lemma determineTargetSnapPoint_cases:
  "determineTargetSnapPoint s h v = Some ''closed''
   \<or> determineTargetSnapPoint s h v = Some ''half-open''
   \<or> determineTargetSnapPoint s h v = Some ''fully-open''"
  by (simp add: determineTargetSnapPoint_def length_snapPointOrder
          indexOf_snapPointOrder at_index_snapPointOrder thresholdLoop3
          velocityThreshold_def snapThresholds_def Let_def)

text \<open>
  The prop \<open>snapPoints\<close> is not read. Mounted on a desktop with the sequence closed,
  half-open and resting at half-open, which is a member of it, the component displays a
  height of 50 percent; released without velocity, the selection answers fully-open,
  which is not a member of the supplied sequence.
\<close>

theorem determineTargetSnapPoint_not_in_supplied:
  "currentSnapPoint (mount True True [''closed'', ''half-open''] ''half-open'' 1024 800)
     \<in> set (snapPoints (mount True True [''closed'', ''half-open''] ''half-open'' 1024 800))
   \<and> getCurrentHeight (mount True True [''closed'', ''half-open''] ''half-open'' 1024 800)
       = Inr (Pct (Fin 50))
   \<and> determineTargetSnapPoint
       (mount True True [''closed'', ''half-open''] ''half-open'' 1024 800) (Pct (Fin 50)) 0
       = Some ''fully-open''
   \<and> ''fully-open''
       \<notin> set (snapPoints (mount True True [''closed'', ''half-open''] ''half-open'' 1024 800))"
  by (simp add: determineTargetSnapPoint_def getCurrentHeight_def snapPointConfig_def
        getSnapPointConfig_def mount_def handleResize_def openEffect_def
        length_snapPointOrder indexOf_snapPointOrder at_index_snapPointOrder thresholdLoop3
        velocityThreshold_def snapThresholds_def Let_def)

text \<open>
  C8, amended. For every valid input, that is a current snap point that is a member of
  the supplied sequence, whatever that sequence is, and a height whose fraction of the
  viewport lies between 0 and 1, both included, and for every velocity:
  \<open>determineTargetSnapPoint\<close> returns a defined value, and that value is a member of the
  fixed sequence closed, half-open, fully-open.
\<close>

theorem determineTargetSnapPoint_total:
  assumes "currentSnapPoint s \<in> set (snapPoints s)"
    and "heightPercent (viewportHeight s) h = Fin fr"
    and "0 \<le> fr" and "fr \<le> 1"
  shows "\<exists>sp. determineTargetSnapPoint s h v = Some sp \<and> sp \<in> set snapPointOrder"
  using determineTargetSnapPoint_cases [of s h v] by (auto simp: snapPointOrder_def)

text \<open>
  The state of the counterexample, with the boundary fraction 1: the answer is defined
  and one of the three fixed names.
\<close>

theorem determineTargetSnapPoint_total_witness:
  "currentSnapPoint (mount True True [''closed'', ''half-open''] ''half-open'' 1024 800)
     \<in> set (snapPoints (mount True True [''closed'', ''half-open''] ''half-open'' 1024 800))
   \<and> heightPercent
       (viewportHeight (mount True True [''closed'', ''half-open''] ''half-open'' 1024 800))
       (Pct (Fin 100)) = Fin 1
   \<and> (\<exists>sp. determineTargetSnapPoint
              (mount True True [''closed'', ''half-open''] ''half-open'' 1024 800)
              (Pct (Fin 100)) 0 = Some sp
          \<and> sp \<in> set snapPointOrder)"
proof -
  let ?s = "mount True True [''closed'', ''half-open''] ''half-open'' 1024 800"
  have m: "currentSnapPoint ?s \<in> set (snapPoints ?s)"
    by (simp add: mount_def handleResize_def openEffect_def)
  have f: "heightPercent (viewportHeight ?s) (Pct (Fin 100)) = Fin 1"
    by simp
  have lo: "(0::real) \<le> 1" and hi: "(1::real) \<le> 1" by simp_all
  from m f determineTargetSnapPoint_total [OF m f lo hi, of 0] show ?thesis by blast
qed

section \<open>Velocity estimator: the sliding window\<close>

lemma snd_calculateVelocity:
  "snd (calculateVelocity ref cy ct) =
     (let pushed = ref @ [\<lparr> sample_y = cy, sample_time = ct \<rparr>]
      in if length pushed > 5 then tl pushed else pushed)"
  by (simp add: calculateVelocity_def Let_def)

lemma window_step:
  assumes "length ref \<le> 5"
  shows "snd (calculateVelocity ref cy ct) =
           drop (length ref + 1 - 5) (ref @ [\<lparr> sample_y = cy, sample_time = ct \<rparr>])"
proof (cases "length ref = 5")
  case True
  then have "ref \<noteq> []" by auto
  with True show ?thesis
    by (simp add: snd_calculateVelocity drop_Suc tl_append split: list.splits)
next
  case False
  with assms have "length ref < 5" by simp
  then show ?thesis by (simp add: snd_calculateVelocity)
qed

lemma observe_all_window:
  "length ref \<le> 5 \<Longrightarrow> observe_all ref ps = drop (length (ref @ ps) - 5) (ref @ ps)"
proof (induction ps arbitrary: ref)
  case Nil
  then show ?case by simp
next
  case (Cons p ps)
  let ?w = "snd (calculateVelocity ref (sample_y p) (sample_time p))"
  have w: "?w = drop (length ref + 1 - 5) (ref @ [p])"
    using window_step[OF Cons.prems, of "sample_y p" "sample_time p"] by simp
  have len: "length ?w \<le> 5" using Cons.prems by (simp add: w)
  have "observe_all ref (p # ps) = observe_all ?w ps" by simp
  also have "\<dots> = drop (length (?w @ ps) - 5) (?w @ ps)" by (rule Cons.IH[OF len])
  also have "\<dots> = drop (length (ref @ p # ps) - 5) (ref @ p # ps)"
  proof (cases "length ref = 5")
    case True
    then show ?thesis by (simp add: w)
  next
    case False
    with Cons.prems have "length ref < 5" by simp
    then show ?thesis by (simp add: w)
  qed
  finally show ?case .
qed

lemma observe_all_snoc:
  "observe_all ref (ps @ [p]) =
     snd (calculateVelocity (observe_all ref ps) (sample_y p) (sample_time p))"
  by (induction ps arbitrary: ref) simp_all

lemma window_velocity_aux:
  fixes ps :: "sample list" and cy ct :: real
  defines "allp \<equiv> ps @ [\<lparr> sample_y = cy, sample_time = ct \<rparr>]"
  defines "res \<equiv> calculateVelocity (observe_all [] ps) cy ct"
  defines "oldest \<equiv> allp ! (length allp - 5)"
  shows "snd res = drop (length allp - 5) allp
       \<and> length (snd res) = min 5 (length allp)
       \<and> fst res =
           (if length (snd res) < 2 \<or> \<not> 0 < ct - sample_time oldest then 0
            else (cy - sample_y oldest) / (ct - sample_time oldest))"
proof -
  let ?p = "\<lparr> sample_y = cy, sample_time = ct \<rparr>"
  have "snd res = observe_all [] allp"
    unfolding res_def allp_def by (simp add: observe_all_snoc)
  then have win: "snd res = drop (length allp - 5) allp"
    using observe_all_window[of "[]" allp] by simp
  have wlen: "length (snd res) = min 5 (length allp)"
    by (simp add: win allp_def)
  have ne: "snd res \<noteq> []" using wlen by (auto simp: allp_def)
  have first: "snd res ! 0 = oldest"
    unfolding oldest_def win by (simp add: nth_drop)
  have "last (drop (length allp - 5) allp) = last allp"
    by (rule last_drop) (simp add: allp_def)
  then have "last (snd res) = ?p" by (simp add: win allp_def)
  then have lst: "snd res ! (length (snd res) - 1) = ?p"
    using last_conv_nth[OF ne] by simp
  have "fst res =
      (if length (snd res) \<ge> 2 then
         (if sample_time (snd res ! (length (snd res) - 1)) - sample_time (snd res ! 0) > 0
          then (sample_y (snd res ! (length (snd res) - 1)) - sample_y (snd res ! 0)) /
               (sample_time (snd res ! (length (snd res) - 1)) - sample_time (snd res ! 0))
          else 0)
       else 0)"
    unfolding res_def by (simp add: calculateVelocity_def Let_def)
  then have "fst res =
           (if length (snd res) < 2 \<or> \<not> 0 < ct - sample_time oldest then 0
            else (cy - sample_y oldest) / (ct - sample_time oldest))"
    unfolding first lst by (simp add: not_le)
  with win wlen show ?thesis by simp
qed

text \<open>
  C2. Let the samples \<open>ps\<close> of a gesture be observed one after the other from an empty
  window, and then the sample \<open>(cy, ct)\<close>. The window after that call holds the last five
  of all samples observed, or all of them when there are fewer (the oldest are evicted
  first). The call returns the difference of position between the newest and the oldest
  sample of that window divided by their difference of time, and returns 0 when the
  window holds fewer than two samples or that difference of time is not positive.
\<close>

theorem calculateVelocity_window:
  "let allp = ps @ [\<lparr> sample_y = cy, sample_time = ct \<rparr>];
       res = calculateVelocity (observe_all [] ps) cy ct;
       oldest = allp ! (length allp - 5)
   in snd res = drop (length allp - 5) allp
    \<and> length (snd res) = min 5 (length allp)
    \<and> fst res =
        (if length (snd res) < 2 \<or> \<not> 0 < ct - sample_time oldest then 0
         else (cy - sample_y oldest) / (ct - sample_time oldest))"
  unfolding Let_def by (rule window_velocity_aux)

text \<open>
  Seven samples: the window keeps those taken at times 2, 3, 4, 5 and 7, and the velocity
  is \<open>(70 - 20) / (7 - 2)\<close>.
\<close>

theorem calculateVelocity_window_witness:
  "calculateVelocity
     (observe_all []
        [\<lparr> sample_y = 0, sample_time = 0 \<rparr>, \<lparr> sample_y = 10, sample_time = 1 \<rparr>,
         \<lparr> sample_y = 20, sample_time = 2 \<rparr>, \<lparr> sample_y = 30, sample_time = 3 \<rparr>,
         \<lparr> sample_y = 40, sample_time = 4 \<rparr>, \<lparr> sample_y = 50, sample_time = 5 \<rparr>])
     70 7
   = (10, [\<lparr> sample_y = 20, sample_time = 2 \<rparr>, \<lparr> sample_y = 30, sample_time = 3 \<rparr>,
           \<lparr> sample_y = 40, sample_time = 4 \<rparr>, \<lparr> sample_y = 50, sample_time = 5 \<rparr>,
           \<lparr> sample_y = 70, sample_time = 7 \<rparr>])"
  using calculateVelocity_window
    [of "[\<lparr> sample_y = 0, sample_time = 0 \<rparr>, \<lparr> sample_y = 10, sample_time = 1 \<rparr>,
          \<lparr> sample_y = 20, sample_time = 2 \<rparr>, \<lparr> sample_y = 30, sample_time = 3 \<rparr>,
          \<lparr> sample_y = 40, sample_time = 4 \<rparr>, \<lparr> sample_y = 50, sample_time = 5 \<rparr>]" 70 7]
  by (simp add: Let_def prod_eq_iff)

section \<open>Spring easing: damping regimes\<close>

lemma pos_neq0: "(0::real) < x \<Longrightarrow> x \<noteq> 0"
  by simp

lemma zeta_less_one_iff:
  assumes "0 < tension cfg" "0 < mass cfg" "0 \<le> friction cfg"
  shows "zeta cfg < 1 \<longleftrightarrow> (friction cfg)\<^sup>2 < 4 * tension cfg * mass cfg"
proof -
  let ?r = "sqrt (tension cfg * mass cfg)"
  have r: "0 < ?r" using assms by simp
  have sq: "(2 * ?r)\<^sup>2 = 4 * tension cfg * mass cfg"
    using assms by (simp add: power_mult_distrib)
  have "zeta cfg < 1 \<longleftrightarrow> friction cfg < 2 * ?r"
    using r by (simp add: zeta_def divide_less_eq)
  also have "\<dots> \<longleftrightarrow> (friction cfg)\<^sup>2 < (2 * ?r)\<^sup>2"
  proof
    assume "friction cfg < 2 * ?r"
    then show "(friction cfg)\<^sup>2 < (2 * ?r)\<^sup>2"
      using assms(3) by (rule power_strict_mono) simp
  next
    assume "(friction cfg)\<^sup>2 < (2 * ?r)\<^sup>2"
    then show "friction cfg < 2 * ?r"
      by (rule power2_less_imp_less) (use r in simp)
  qed
  finally show ?thesis by (simp only: sq)
qed

lemma omega_pos: "0 < tension cfg \<Longrightarrow> 0 < mass cfg \<Longrightarrow> 0 < omega cfg"
  by (simp add: omega_def)

lemma zeta_nonneg:
  "0 < tension cfg \<Longrightarrow> 0 < mass cfg \<Longrightarrow> 0 \<le> friction cfg \<Longrightarrow> 0 \<le> zeta cfg"
  by (simp add: zeta_def)

lemma omegaD_pos:
  assumes "0 < tension cfg" "0 < mass cfg" "0 \<le> friction cfg" "zeta cfg < 1"
  shows "0 < omega cfg * sqrt (1 - zeta cfg * zeta cfg)"
proof -
  have z0: "0 \<le> zeta cfg" by (rule zeta_nonneg[OF assms(1-3)])
  have "zeta cfg * zeta cfg \<le> zeta cfg * 1"
    using z0 assms(4) by (intro mult_left_mono) simp_all
  then have "zeta cfg * zeta cfg < 1" using assms(4) by simp
  then show ?thesis using omega_pos[OF assms(1,2)] by simp
qed


lemma getSpringConfig_positive:
  "0 < tension (getSpringConfig m)" "0 < mass (getSpringConfig m)"
  "0 \<le> friction (getSpringConfig m)"
  by (simp_all add: getSpringConfig_def)

lemma getSpringConfig_discriminant:
  "(friction (getSpringConfig m))\<^sup>2
     < 4 * tension (getSpringConfig m) * mass (getSpringConfig m)"
  by (simp add: getSpringConfig_def power2_eq_square)

text \<open>
  C10. For the parameter set of either device class, \<open>friction\<^sup>2 < 4 * tension * mass\<close>,
  the damping ratio \<open>zeta\<close> is below 1, and \<open>springEase\<close> evaluates the underdamped branch
  at every \<open>t\<close>.
\<close>

theorem configured_springs_underdamped:
  "(friction (getSpringConfig m))\<^sup>2
       < 4 * tension (getSpringConfig m) * mass (getSpringConfig m)
   \<and> zeta (getSpringConfig m) < 1
   \<and> springEase (getSpringConfig m) t =
       (let c = getSpringConfig m;
            omegaD = omega c * sqrt (1 - zeta c * zeta c)
        in Fin (1 - exp (- zeta c * omega c * t) *
              (cos (omegaD * t) + (zeta c * omega c / omegaD) * sin (omegaD * t))))"
proof -
  let ?c = "getSpringConfig m"
  have z: "zeta ?c < 1"
    using zeta_less_one_iff[OF getSpringConfig_positive, of m] getSpringConfig_discriminant[of m]
    by simp
  have "0 < omega ?c * sqrt (1 - zeta ?c * zeta ?c)"
    by (rule omegaD_pos[OF getSpringConfig_positive z])
  then have "omega ?c * sqrt (1 - zeta ?c * zeta ?c) \<noteq> 0" by (rule pos_neq0)
  then show ?thesis
    using z getSpringConfig_discriminant[of m] by (simp add: springEase_def Let_def)
qed

text \<open>On mobile the easing starts at 0.\<close>

theorem configured_springs_underdamped_witness:
  "zeta (getSpringConfig True) < 1 \<and> springEase (getSpringConfig True) 0 = Fin 0"
  using configured_springs_underdamped [of True 0] by (simp add: Let_def)













section \<open>Transitions\<close>

lemma animateToSnapPoint_running: "isAnimating s \<Longrightarrow> animateToSnapPoint s now t = Inr s"
  by (simp add: animateToSnapPoint_def)


lemma run_frames_idle: "animationRef s = None \<Longrightarrow> run_frames s ts = s"
  by (induction ts) (simp_all add: animate_def)

lemma animate_running:
  assumes "animationRef s = Some f" "0 < frame_duration f"
    "t < frame_startTime f + frame_duration f"
  shows "animate s t =
    s\<lparr> animationProgress :=
         springEase (frame_spring f) (min ((t - frame_startTime f) / frame_duration f) 1) \<rparr>"
proof -
  have "(t - frame_startTime f) / frame_duration f < 1"
    using assms(2,3) by (simp add: divide_less_eq)
  then show ?thesis using assms(1) by (simp add: animate_def Let_def)
qed

lemma animate_commit:
  assumes "animationRef s = Some f" "0 < frame_duration f"
    "frame_startTime f + frame_duration f \<le> t"
  shows "animate s t =
    announceSnapPointChange
      (s\<lparr> isAnimating := False, currentSnapPoint := frame_target f,
          animationProgress := Fin 0, dragVelocity := 0, velocityRef := [],
          animationRef := None \<rparr>) (frame_target f)"
proof -
  have "\<not> (t - frame_startTime f) / frame_duration f < 1"
    using assms(2,3) by (simp add: divide_less_eq)
  then show ?thesis using assms(1) by (simp add: animate_def Let_def)
qed

text \<open>Frames that all come before the end of the duration announce nothing.\<close>

lemma run_frames_incomplete:
  assumes "animationRef s = Some f" "0 < frame_duration f"
    "\<forall>t\<in>set ts. t < frame_startTime f + frame_duration f"
  shows "announced (run_frames s ts) = announced s
       \<and> animationRef (run_frames s ts) = Some f
       \<and> isAnimating (run_frames s ts) = isAnimating s
       \<and> currentSnapPoint (run_frames s ts) = currentSnapPoint s"
  using assms
proof (induction ts arbitrary: s)
  case Nil
  then show ?case by simp
next
  case (Cons t ts)
  have a: "animate s t = s\<lparr> animationProgress :=
         springEase (frame_spring f) (min ((t - frame_startTime f) / frame_duration f) 1) \<rparr>"
    using animate_running[OF Cons.prems(1,2)] Cons.prems(3) by simp
  have "animationRef (animate s t) = Some f" using Cons.prems(1) by (simp add: a)
  from Cons.IH[OF this Cons.prems(2)] Cons.prems(3)
  show ?case by (simp add: a)
qed

lemma run_frames_complete:
  assumes "animationRef s = Some f" "0 < frame_duration f"
    "\<exists>t\<in>set ts. frame_startTime f + frame_duration f \<le> t"
  shows "announced (run_frames s ts) = announced s @ [frame_target f]
       \<and> currentSnapPoint (run_frames s ts) = frame_target f
       \<and> \<not> isAnimating (run_frames s ts)
       \<and> animationRef (run_frames s ts) = None
       \<and> velocityRef (run_frames s ts) = []"
  using assms
proof (induction ts arbitrary: s)
  case Nil
  then show ?case by simp
next
  case (Cons t ts)
  show ?case
  proof (cases "frame_startTime f + frame_duration f \<le> t")
    case True
    let ?s2 = "animate s t"
    have c: "?s2 = announceSnapPointChange
      (s\<lparr> isAnimating := False, currentSnapPoint := frame_target f,
          animationProgress := Fin 0, dragVelocity := 0, velocityRef := [],
          animationRef := None \<rparr>) (frame_target f)"
      by (rule animate_commit[OF Cons.prems(1,2) True])
    have "animationRef ?s2 = None" by (simp add: c announceSnapPointChange_def)
    then have "run_frames ?s2 ts = ?s2" by (rule run_frames_idle)
    then have "run_frames s (t # ts) = ?s2" by simp
    then show ?thesis by (simp add: c announceSnapPointChange_def)
  next
    case False
    then have lt: "t < frame_startTime f + frame_duration f" by simp
    have a: "animate s t = s\<lparr> animationProgress :=
         springEase (frame_spring f) (min ((t - frame_startTime f) / frame_duration f) 1) \<rparr>"
      by (rule animate_running[OF Cons.prems(1,2) lt])
    have r: "animationRef (animate s t) = Some f" using Cons.prems(1) by (simp add: a)
    have ex: "\<exists>t\<in>set ts. frame_startTime f + frame_duration f \<le> t"
      using Cons.prems(3) False by auto
    from Cons.IH[OF r Cons.prems(2) ex] show ?thesis by (simp add: a)
  qed
qed

text \<open>
  C5. Let a transition to \<open>tgt\<close> be started from an idle state at time \<open>now\<close>, and let the
  frames \<open>ts\<close> follow, one of them at or after the end of the duration (500 ms on mobile,
  600 ms otherwise), so that the linear progress reaches 1. After these frames exactly
  one announcement has been added, it names \<open>tgt\<close>, the current snap point is \<open>tgt\<close>, no
  transition is running, no callback is scheduled, and the velocity samples are empty.
\<close>

theorem transition_completes:
  assumes "\<not> isAnimating s"
    and "animateToSnapPoint s now tgt = Inr s1"
    and "\<exists>t\<in>set ts. now + (if isMobile s then 500 else 600) \<le> t"
  shows "announced (run_frames s1 ts) = announced s @ [tgt]
       \<and> currentSnapPoint (run_frames s1 ts) = tgt
       \<and> \<not> isAnimating (run_frames s1 ts)
       \<and> animationRef (run_frames s1 ts) = None
       \<and> velocityRef (run_frames s1 ts) = []"
proof -
  let ?f = "\<lparr> frame_startTime = now,
              frame_duration = (if isMobile s then 500 else 600),
              frame_target = tgt, frame_spring = getSpringConfig (isMobile s) \<rparr>"
  have ref: "animationRef s1 = Some ?f" and ann: "announced s1 = announced s"
    using assms(1,2)
    by (auto simp: animateToSnapPoint_def split: option.splits)
  have d: "0 < frame_duration ?f" by simp
  have ex: "\<exists>t\<in>set ts. frame_startTime ?f + frame_duration ?f \<le> t"
    using assms(3) by simp
  from run_frames_complete[OF ref d ex] show ?thesis by (simp add: ann)
qed

text \<open>
  On a desktop, from half-open to fully-open, with frames at 16, 300, 600 and 616 ms.
\<close>

theorem transition_completes_witness:
  "\<not> isAnimating (desktop_sheet ''half-open'')
   \<and> isAnimating (projr (animateToSnapPoint (desktop_sheet ''half-open'') 0 ''fully-open''))
   \<and> announced
       (run_frames (projr (animateToSnapPoint (desktop_sheet ''half-open'') 0 ''fully-open''))
          [16, 300, 600, 616]) = [''fully-open'']
   \<and> currentSnapPoint
       (run_frames (projr (animateToSnapPoint (desktop_sheet ''half-open'') 0 ''fully-open''))
          [16, 300, 600, 616]) = ''fully-open''
   \<and> velocityRef
       (run_frames (projr (animateToSnapPoint (desktop_sheet ''half-open'') 0 ''fully-open''))
          [16, 300, 600, 616]) = []"
proof -
  let ?s = "desktop_sheet ''half-open''"
  let ?s1 = "projr (animateToSnapPoint ?s 0 ''fully-open'')"
  have idle: "\<not> isAnimating ?s" by (simp add: desktop_sheet_simps)
  have start: "animateToSnapPoint ?s 0 ''fully-open'' = Inr ?s1"
    by (simp add: animateToSnapPoint_def desktop_sheet_simps snapPointConfig_def
        getSnapPointConfig_def)
  have run: "isAnimating ?s1"
    by (simp add: animateToSnapPoint_def desktop_sheet_simps snapPointConfig_def
        getSnapPointConfig_def)
  have late: "\<exists>t\<in>set [16, 300, 600, 616]. 0 + (if isMobile ?s then 500 else 600) \<le> (t::real)"
    by (simp add: desktop_sheet_simps)
  show ?thesis
    using idle run transition_completes [OF idle start late]
    by (simp add: desktop_sheet_simps)
qed

text \<open>
  A click on the button of the current snap point requests nothing: this handler compares
  the target with the current snap point before it calls \<open>animateToSnapPoint\<close>.
\<close>

lemma handleSnapPointClick_current: "handleSnapPointClick s now (currentSnapPoint s) = Inr s"
  by (simp add: handleSnapPointClick_def)

text \<open>
  C4. At fully-open and idle, the key \<open>Home\<close> is not a no-op although the target equals
  the current snap point: a transition from fully-open to fully-open starts, and when it
  has run its 600 ms it announces fully-open.
\<close>

theorem home_at_fully_open_starts_transition:
  "currentSnapPoint (desktop_sheet ''fully-open'') = ''fully-open''
   \<and> map_sum id isAnimating (handleKeyDown (desktop_sheet ''fully-open'') 0 Home) = Inr True
   \<and> map_option frame_target
       (animationRef (projr (handleKeyDown (desktop_sheet ''fully-open'') 0 Home)))
       = Some ''fully-open''
   \<and> announced (run_frames (projr (handleKeyDown (desktop_sheet ''fully-open'') 0 Home)) [600])
       = [''fully-open'']"
  by (simp add: handleKeyDown_def animateToSnapPoint_def desktop_sheet_simps
      snapPointConfig_def getSnapPointConfig_def animate_def announceSnapPointChange_def Let_def)

section \<open>Gesture end\<close>





section \<open>Gestures and transitions together\<close>

text \<open>
  During a drag at half-open, \<open>ArrowUp\<close> starts a transition: afterwards the session is
  open and the transition is running.
\<close>

theorem transition_starts_during_gesture:
  "isDragging (handleTouchStart (desktop_sheet ''half-open'') 100 0)
   \<and> map_sum id isDragging
       (handleKeyDown (handleTouchStart (desktop_sheet ''half-open'') 100 0) 5 ArrowUp)
       = Inr True
   \<and> map_sum id isAnimating
       (handleKeyDown (handleTouchStart (desktop_sheet ''half-open'') 100 0) 5 ArrowUp)
       = Inr True"
  by (simp add: handleTouchStart_desktop handleKeyDown_def animateToSnapPoint_def
        snapPointConfig_def getSnapPointConfig_def desktop_sheet_simps
        length_snapPointOrder indexOf_snapPointOrder at_index_snapPointOrder Let_def)

text \<open>
  C7, amended. While a transition is running, a pointer-down is a no-op and a transition
  request is a no-op. While a gesture session is active and no transition is running, a
  transition request between snap points of the table is not rejected: the transition to
  the requested target starts and the session stays active.
\<close>

theorem exclusion_only_while_running:
  "(isAnimating s \<longrightarrow> handleTouchStart s cy now = s)
   \<and> (isAnimating s \<longrightarrow> animateToSnapPoint s now t = Inr s)
   \<and> (isDragging s \<and> \<not> isAnimating s
        \<and> snapPointConfig s (currentSnapPoint s) \<noteq> None \<and> snapPointConfig s t \<noteq> None
       \<longrightarrow> (\<exists>s'. animateToSnapPoint s now t = Inr s' \<and> isAnimating s' \<and> isDragging s'
                \<and> (\<exists>f. animationRef s' = Some f \<and> frame_target f = t)))"
  by (auto simp add: handleTouchStart_def animateToSnapPoint_def)

text \<open>
  A press during the transition from half-open to closed changes nothing, and neither
  does a request for fully-open; a request for fully-open during a drag at half-open
  starts the transition.
\<close>

theorem exclusion_only_while_running_witness:
  "isAnimating (projr (animateToSnapPoint (desktop_sheet ''half-open'') 0 ''closed''))
   \<and> handleTouchStart (projr (animateToSnapPoint (desktop_sheet ''half-open'') 0 ''closed'')) 100 5
       = projr (animateToSnapPoint (desktop_sheet ''half-open'') 0 ''closed'')
   \<and> animateToSnapPoint (projr (animateToSnapPoint (desktop_sheet ''half-open'') 0 ''closed''))
         5 ''fully-open''
       = Inr (projr (animateToSnapPoint (desktop_sheet ''half-open'') 0 ''closed''))
   \<and> isDragging (handleTouchStart (desktop_sheet ''half-open'') 100 0)
   \<and> \<not> isAnimating (handleTouchStart (desktop_sheet ''half-open'') 100 0)
   \<and> (\<exists>s'. animateToSnapPoint (handleTouchStart (desktop_sheet ''half-open'') 100 0)
              5 ''fully-open'' = Inr s'
          \<and> isAnimating s' \<and> isDragging s'
          \<and> (\<exists>f. animationRef s' = Some f \<and> frame_target f = ''fully-open''))"
proof -
  let ?r = "projr (animateToSnapPoint (desktop_sheet ''half-open'') 0 ''closed'')"
  let ?d = "handleTouchStart (desktop_sheet ''half-open'') 100 0"
  have r: "isAnimating ?r"
    by (simp add: animateToSnapPoint_def desktop_sheet_simps snapPointConfig_def
        getSnapPointConfig_def)
  have d: "isDragging ?d" "\<not> isAnimating ?d"
    "snapPointConfig ?d (currentSnapPoint ?d) \<noteq> None"
    "snapPointConfig ?d ''fully-open'' \<noteq> None"
    by (simp_all add: handleTouchStart_desktop desktop_sheet_simps snapPointConfig_def
        getSnapPointConfig_def)
  show ?thesis
    using r d exclusion_only_while_running [of ?r 100 5 "''fully-open''"]
      exclusion_only_while_running [of ?d 100 5 "''fully-open''"]
    by simp
qed

section \<open>Resizing during a transition\<close>

text \<open>
  A transition from half-open to fully-open starts on a desktop, and the window is then
  resized to 375 by 667 pixels, a mobile size. At progress 0 the displayed height is
  still the desktop's 50 percent, where the table of the present device class has 60
  percent for half-open.
\<close>

theorem resize_keeps_captured_extents:
  "map_sum id isAnimating (animateToSnapPoint (desktop_sheet ''half-open'') 0 ''fully-open'')
     = Inr True
   \<and> getCurrentHeight
     (viewportChanged
        (projr (animateToSnapPoint (desktop_sheet ''half-open'') 0 ''fully-open'')) 375 667)
       = Inr (Pct (Fin 50))
   \<and> getCurrentHeight_live_spec
     (viewportChanged
        (projr (animateToSnapPoint (desktop_sheet ''half-open'') 0 ''fully-open'')) 375 667)
       = Inr (Pct (Fin 60))"
  by (simp add: animateToSnapPoint_def getCurrentHeight_live_spec_def getCurrentHeight_def
        viewportChanged_def openEffect_def handleResize_def snapPointConfig_def
        getSnapPointConfig_def desktop_sheet_simps js_sub_def Let_def)

text \<open>
  A viewport change writes the viewport cells, the device class, and, when the device
  class flips, \<open>showControls\<close> and \<open>announcement\<close>; nothing else.
\<close>

lemma viewportChanged_view:
  "\<exists>controls msg.
     viewportChanged s w h
       = view_update s w h (w < 768) (768 \<le> w \<and> w < 1024) controls msg"
proof (cases "isMobile (handleResize s w h) \<noteq> isMobile s")
  case True
  show ?thesis
  proof (cases "isOpen s")
    case True
    with \<open>isMobile (handleResize s w h) \<noteq> isMobile s\<close> show ?thesis
      by (intro exI[of _ "\<not> (w < 768)"] exI[of _ "title s @ '' opened. '' @ description s"])
         (simp add: viewportChanged_def view_update_def openEffect_def handleResize_def)
  next
    case False
    with \<open>isMobile (handleResize s w h) \<noteq> isMobile s\<close> show ?thesis
      by (intro exI[of _ False] exI[of _ "announcement s"])
         (simp add: viewportChanged_def view_update_def openEffect_def handleResize_def)
  qed
next
  case False
  then show ?thesis
    by (intro exI[of _ "showControls s"] exI[of _ "announcement s"])
       (simp add: viewportChanged_def view_update_def handleResize_def)
qed

text \<open>
  A frame reads none of these cells and writes only \<open>announcement\<close> among them, so frames
  and such a change commute up to the text of the announcement.
\<close>

lemma animate_view_update:
  "\<exists>msg'. animate (view_update s w h m tb c msg) t
            = view_update (animate s t) w h m tb c msg'"
proof (cases "animationRef s")
  case None
  then show ?thesis
    by (intro exI[of _ msg]) (simp add: animate_def view_update_def)
next
  case (Some f)
  show ?thesis
  proof (cases "min ((t - frame_startTime f) / frame_duration f) 1 < 1")
    case True
    with Some show ?thesis
      by (intro exI[of _ msg]) (simp add: animate_def view_update_def Let_def)
  next
    case False
    with Some show ?thesis
      by (intro exI[of _ "snapPointLabel (frame_target f)"])
         (simp add: animate_def view_update_def announceSnapPointChange_def Let_def)
  qed
qed

lemma run_frames_view_update:
  "\<exists>msg'. run_frames (view_update s w h m tb c msg) ts
            = view_update (run_frames s ts) w h m tb c msg'"
proof (induction ts arbitrary: s msg)
  case Nil
  show ?case by (intro exI[of _ msg]) simp
next
  case (Cons t ts)
  obtain msg1 where 1: "animate (view_update s w h m tb c msg) t
      = view_update (animate s t) w h m tb c msg1"
    using animate_view_update by blast
  obtain msg2 where 2: "run_frames (view_update (animate s t) w h m tb c msg1) ts
      = view_update (run_frames (animate s t) ts) w h m tb c msg2"
    using Cons.IH by blast
  show ?case by (intro exI[of _ msg2]) (simp add: 1 2)
qed

lemma view_update_cells:
  "isAnimating (view_update s w h m tb c msg) = isAnimating s"
  "animationRef (view_update s w h m tb c msg) = animationRef s"
  "animationProgress (view_update s w h m tb c msg) = animationProgress s"
  "currentSnapPoint (view_update s w h m tb c msg) = currentSnapPoint s"
  "announced (view_update s w h m tb c msg) = announced s"
  "velocityRef (view_update s w h m tb c msg) = velocityRef s"
  "isMobile (view_update s w h m tb c msg) = m"
  "isTablet (view_update s w h m tb c msg) = tb"
  by (simp_all add: view_update_def)

lemma getCurrentHeight_view_update:
  "isAnimating s \<Longrightarrow> getCurrentHeight (view_update s w h m tb c msg) = getCurrentHeight s"
  by (simp add: getCurrentHeight_def view_update_def Let_def split: css_length.splits)

text \<open>
  C9, amended. For every change of the viewport size while a transition is running: the
  device class and the table are those of the new width. After every later sequence of
  frames, whether the transition is running, its scheduled callback, its progress, the
  current snap point, the announcements made and the velocity samples are what they
  would be without the change. The height displayed, at once and after each later frame
  on which the transition is still running, is the one displayed without the change:
  it stays interpolated between the two heights captured when the transition started.
\<close>

theorem resize_while_running:
  assumes "isAnimating s"
  shows "isMobile (viewportChanged s w h) = (w < 768)
       \<and> isTablet (viewportChanged s w h) = (768 \<le> w \<and> w < 1024)
       \<and> snapPointConfig (viewportChanged s w h)
           = getSnapPointConfig (w < 768) (768 \<le> w \<and> w < 1024)
       \<and> isAnimating (run_frames (viewportChanged s w h) ts) = isAnimating (run_frames s ts)
       \<and> animationRef (run_frames (viewportChanged s w h) ts) = animationRef (run_frames s ts)
       \<and> animationProgress (run_frames (viewportChanged s w h) ts)
           = animationProgress (run_frames s ts)
       \<and> currentSnapPoint (run_frames (viewportChanged s w h) ts)
           = currentSnapPoint (run_frames s ts)
       \<and> announced (run_frames (viewportChanged s w h) ts) = announced (run_frames s ts)
       \<and> velocityRef (run_frames (viewportChanged s w h) ts) = velocityRef (run_frames s ts)
       \<and> getCurrentHeight (viewportChanged s w h) = getCurrentHeight s
       \<and> (isAnimating (run_frames s ts) \<longrightarrow>
            getCurrentHeight (run_frames (viewportChanged s w h) ts)
              = getCurrentHeight (run_frames s ts))"
proof -
  obtain c msg where v: "viewportChanged s w h
      = view_update s w h (w < 768) (768 \<le> w \<and> w < 1024) c msg"
    using viewportChanged_view by blast
  obtain msg' where r: "run_frames (viewportChanged s w h) ts
      = view_update (run_frames s ts) w h (w < 768) (768 \<le> w \<and> w < 1024) c msg'"
    unfolding v using run_frames_view_update by blast
  have cfg: "snapPointConfig (viewportChanged s w h)
      = getSnapPointConfig (w < 768) (768 \<le> w \<and> w < 1024)"
    by (simp add: v snapPointConfig_def view_update_cells)
  have now: "getCurrentHeight (viewportChanged s w h) = getCurrentHeight s"
    unfolding v by (rule getCurrentHeight_view_update[OF assms])
  have later: "isAnimating (run_frames s ts) \<longrightarrow>
      getCurrentHeight (run_frames (viewportChanged s w h) ts)
        = getCurrentHeight (run_frames s ts)"
    unfolding r by (simp add: getCurrentHeight_view_update)
  show ?thesis
    using cfg now later by (simp add: r view_update_cells) (simp add: v view_update_cells)
qed

text \<open>
  The transition above, resized to the mobile size: the device class flips, the
  transition keeps running, and after a frame at 0 ms the height displayed is the one
  displayed without the resize.
\<close>

theorem resize_while_running_witness:
  "isAnimating (projr (animateToSnapPoint (desktop_sheet ''half-open'') 0 ''fully-open''))
   \<and> isMobile
       (viewportChanged
          (projr (animateToSnapPoint (desktop_sheet ''half-open'') 0 ''fully-open''))
          375 667)
   \<and> isAnimating
       (run_frames (projr (animateToSnapPoint (desktop_sheet ''half-open'') 0 ''fully-open''))
          [0])
   \<and> getCurrentHeight
       (run_frames
          (viewportChanged
             (projr (animateToSnapPoint (desktop_sheet ''half-open'') 0 ''fully-open''))
             375 667) [0])
       = getCurrentHeight
           (run_frames
              (projr (animateToSnapPoint (desktop_sheet ''half-open'') 0 ''fully-open''))
              [0])"
proof -
  let ?s = "projr (animateToSnapPoint (desktop_sheet ''half-open'') 0 ''fully-open'')"
  have eq: "?s = (desktop_sheet ''half-open'')
      \<lparr> startHeight := Pct (Fin 50), targetHeight := Pct (Fin 90), isAnimating := True,
        animationProgress := Fin 0,
        animationRef := Some \<lparr> frame_startTime = 0, frame_duration = 600,
          frame_target = ''fully-open'', frame_spring = getSpringConfig False \<rparr> \<rparr>"
    by (simp add: animateToSnapPoint_def desktop_sheet_simps snapPointConfig_def
        getSnapPointConfig_def)
  have a: "isAnimating ?s" by (simp add: eq)
  have b: "isAnimating (run_frames ?s [0])"
    by (simp add: eq animate_def Let_def)
  note th = resize_while_running [OF a, of 375 667 "[0]"]
  from th have m: "isMobile (viewportChanged ?s 375 667)" by simp
  from th b have g: "getCurrentHeight (run_frames (viewportChanged ?s 375 667) [0])
      = getCurrentHeight (run_frames ?s [0])" by blast
  from a b m g show ?thesis by blast
qed

end
